theory Spec2Isabelle
  imports Main "HOL-Library.Log_Nat"
begin

section \<open>Book Haven: the scrape, recommend and analyze pipeline of app.py\<close>

subsection \<open>Python values\<close>

text \<open>
  A Python \<open>str\<close> is a sequence of Unicode code points; a code point is a natural
  number. ASCII literals are written through \<open>ascii\<close>.
\<close>

type_synonym pystr = "nat list"

definition ascii :: "string \<Rightarrow> pystr" where
  "ascii s = map of_char s"

text \<open>The exceptions the modelled code can raise.\<close>

datatype error =
    ConnectionError
  | Timeout
  | ValueError
  | TypeError
  | AttributeError
  | KeyError
  | IndexError

text \<open>
  A Python \<open>float\<close> is an IEEE 754 binary64 value: a finite value (kept here as the
  rational number it denotes exactly; the sign of zero is not kept), an infinity or NaN.
\<close>

datatype pyfloat = Finite rat | PosInf | NegInf | NaN

definition pow2 :: "int \<Rightarrow> rat" where
  "pow2 k = (if 0 \<le> k then 2 ^ nat k else 1 / 2 ^ nat (- k))"

text \<open>For \<open>a > 0\<close>, the integer \<open>e\<close> with \<open>2^e \<le> a < 2^(e+1)\<close>.\<close>

definition floor_log2 :: "rat \<Rightarrow> int" where
  "floor_log2 a =
     (let k = bitlen (fst (quotient_of a)) - bitlen (snd (quotient_of a))
      in if pow2 k \<le> a then k else k - 1)"

definition round_half_even :: "rat \<Rightarrow> int" where
  "round_half_even q =
     (let f = \<lfloor>q\<rfloor>; d = q - of_int f
      in if d < 1 / 2 then f
         else if 1 / 2 < d then f + 1
         else if even f then f else f + 1)"

text \<open>
  Rounding of an exact result to binary64, to nearest with ties to even: 53 significant
  bits, the smallest spacing \<open>2^-1074\<close> (subnormal numbers), overflow to an infinity
  when the rounded magnitude reaches \<open>2^1024\<close>.
\<close>

definition binary64 :: "rat \<Rightarrow> pyfloat" where
  "binary64 q =
     (if q = 0 then Finite 0
      else
        let a = \<bar>q\<bar>;
            e = max (floor_log2 a - 52) (- 1074);
            m = of_int (round_half_even (a / pow2 e)) * pow2 e
        in if 1024 \<le> floor_log2 m then (if 0 < q then PosInf else NegInf)
           else Finite (if 0 < q then m else - m))"

text \<open>Float addition \<open>a + b\<close>.\<close>

fun float_add :: "pyfloat \<Rightarrow> pyfloat \<Rightarrow> pyfloat" where
  "float_add NaN b = NaN"
| "float_add a NaN = NaN"
| "float_add PosInf NegInf = NaN"
| "float_add NegInf PosInf = NaN"
| "float_add PosInf b = PosInf"
| "float_add a PosInf = PosInf"
| "float_add NegInf b = NegInf"
| "float_add a NegInf = NegInf"
| "float_add (Finite a) (Finite b) = binary64 (a + b)"

text \<open>
  The built-in \<open>sum(xs)\<close>: the accumulator starts at the integer 0 and each element
  is added to it in list order. The integer 0 is converted to the float 0.0 by the
  first addition, and both are printed as \<open>0.00\<close> by \<open>:.2f\<close>, so the start is the
  float zero here.
\<close>

fun sum_loop :: "pyfloat \<Rightarrow> pyfloat list \<Rightarrow> pyfloat" where
  "sum_loop acc [] = acc"
| "sum_loop acc (x # xs) = sum_loop (float_add acc x) xs"

definition py_sum :: "pyfloat list \<Rightarrow> pyfloat" where
  "py_sum xs = sum_loop (Finite 0) xs"

subsection \<open>Book records\<close>

text \<open>
  A rating is an integer of \<open>rating_map\<close> or \<open>np.nan\<close>; a price is a float, \<open>np.nan\<close>
  when the price text has no digit and no period.
\<close>

datatype rating = Rating int | RatingNaN

record book =
  title :: pystr
  price :: pyfloat
  rating :: rating
  source :: pystr
  image_url :: pystr

subsection \<open>POST /order: the total price\<close>

text \<open>
  \<^verbatim>\<open>total = sum([book['price'] for book in books if book['title'] in selected_books])\<close>
  where \<open>selected_books\<close> is the list \<open>request.form.getlist("selected_books")\<close>.
\<close>

fun py_in :: "'a \<Rightarrow> 'a list \<Rightarrow> bool" where
  "py_in x [] = False"
| "py_in x (y # ys) = (if x = y then True else py_in x ys)"

definition order_total :: "book list \<Rightarrow> pystr list \<Rightarrow> pyfloat" where
  "order_total books selected_books =
     py_sum [price book. book \<leftarrow> books, py_in (title book) selected_books]"

subsection \<open>The fetcher: scrape_books_to_scrape\<close>

text \<open>
  \<open>str.strip()\<close> removes the white space at both ends; \<open>is_space\<close> lists the code
  points for which \<open>str.isspace\<close> holds.
\<close>

definition is_space :: "nat \<Rightarrow> bool" where
  "is_space c =
     ((9 \<le> c \<and> c \<le> 13) \<or> (28 \<le> c \<and> c \<le> 32) \<or> c = 133 \<or> c = 160 \<or> c = 5760
      \<or> (8192 \<le> c \<and> c \<le> 8202) \<or> c = 8232 \<or> c = 8233 \<or> c = 8239 \<or> c = 8287
      \<or> c = 12288)"

definition strip :: "pystr \<Rightarrow> pystr" where
  "strip s = rev (dropWhile is_space (rev (dropWhile is_space s)))"

text \<open>
  \<^verbatim>\<open>re.sub(r'[^0-9.]', '', price_text)\<close>: every character other than the ASCII digits
  (code points 48 to 57) and the period (46) is deleted.
\<close>

definition is_digit :: "nat \<Rightarrow> bool" where
  "is_digit c = (48 \<le> c \<and> c \<le> 57)"

definition re_sub_non_numeric :: "pystr \<Rightarrow> pystr" where
  "re_sub_non_numeric s = filter (\<lambda>c. is_digit c \<or> c = 46) s"

text \<open>
  \<open>float(s)\<close> on the strings the call site passes, which hold digits and periods only:
  digits with an optional period and further digits, or a period followed by digits, at
  least one digit in all; the result is the decimal value rounded to binary64. Any other
  string of digits and periods raises ValueError.
\<close>

definition digits_value :: "pystr \<Rightarrow> nat" where
  "digits_value ds = foldl (\<lambda>n c. 10 * n + (c - 48)) 0 ds"

definition py_float :: "pystr \<Rightarrow> error + pyfloat" where
  "py_float s =
     (let ip = takeWhile is_digit s; rest = dropWhile is_digit s
      in case rest of
           [] \<Rightarrow> if ip = [] then Inl ValueError
                 else Inr (binary64 (of_nat (digits_value ip)))
         | c # fp \<Rightarrow>
             if c = 46 \<and> list_all is_digit fp \<and> (ip \<noteq> [] \<or> fp \<noteq> [])
             then Inr (binary64 (of_nat (digits_value ip)
                        + of_nat (digits_value fp) / 10 ^ length fp))
             else Inl ValueError)"

text \<open>
  Lines 27 to 29, from the text of the \<open>p.price_color\<close> node to the price:
  \<^verbatim>\<open>price_text = ....text.strip()\<close>,
  \<^verbatim>\<open>cleaned = re.sub(r'[^0-9.]', '', price_text)\<close>,
  \<^verbatim>\<open>price = float(cleaned) if cleaned else np.nan\<close>.
\<close>

definition extract_price :: "pystr \<Rightarrow> error + pyfloat" where
  "extract_price node_text =
     (let price_text = strip node_text;
          cleaned = re_sub_non_numeric price_text
      in if cleaned \<noteq> [] then py_float cleaned else Inr NaN)"

text \<open>
  \<^verbatim>\<open>rating_map = {'One': 1, 'Two': 2, 'Three': 3, 'Four': 4, 'Five': 5}\<close> and
  \<^verbatim>\<open>rating = rating_map.get(rating_class, np.nan)\<close>.
\<close>

definition rating_map :: "(pystr \<times> int) list" where
  "rating_map =
     [(ascii ''One'', 1), (ascii ''Two'', 2), (ascii ''Three'', 3), (ascii ''Four'', 4),
      (ascii ''Five'', 5)]"

definition rating_of_class :: "pystr \<Rightarrow> rating" where
  "rating_of_class rating_class =
     (case map_of rating_map rating_class of Some n \<Rightarrow> Rating n | None \<Rightarrow> RatingNaN)"

text \<open>\<^verbatim>\<open>src.replace('../', '')\<close>: every occurrence of \<open>../\<close>, left to right, is deleted.\<close>

fun replace_dotdot :: "pystr \<Rightarrow> pystr" where
  "replace_dotdot (a # b # c # s) =
     (if a = 46 \<and> b = 46 \<and> c = 47 then replace_dotdot s
      else a # replace_dotdot (b # c # s))"
| "replace_dotdot s = s"

text \<open>
  One \<open>article.product_pod\<close> node, as the loop body reads it. Each field is the outcome
  of one expression of the body: its value, or the exception it raises when a node or an
  attribute is not there (\<open>art.h3.a['title']\<close>, \<open>art.select_one('p.price_color').text\<close>,
  \<open>art.select_one('p.star-rating')['class']\<close>, \<open>art.find("img")['src']\<close>).
\<close>

record article =
  h3_a_title :: "error + pystr"
  price_color_text :: "error + pystr"
  star_rating_class :: "error + pystr list"
  img_src :: "error + pystr"

text \<open>The loop body, lines 26 to 34; the first exception ends it.\<close>

definition scrape_article :: "article \<Rightarrow> error + book" where
  "scrape_article art =
     (case h3_a_title art of Inl e \<Rightarrow> Inl e | Inr title' \<Rightarrow>
      case price_color_text art of Inl e \<Rightarrow> Inl e | Inr node_text \<Rightarrow>
      case extract_price node_text of Inl e \<Rightarrow> Inl e | Inr price' \<Rightarrow>
      case star_rating_class art of Inl e \<Rightarrow> Inl e | Inr classes \<Rightarrow>
      if length classes < 2 then Inl IndexError
      else
        case img_src art of Inl e \<Rightarrow> Inl e | Inr src \<Rightarrow>
        Inr \<lparr>title = title', price = price',
             rating = rating_of_class (classes ! 1),
             source = ascii ''BooksToScrape'',
             image_url = ascii ''http://books.toscrape.com/'' @ replace_dotdot src\<rparr>)"

fun scrape_articles :: "article list \<Rightarrow> book list \<Rightarrow> error + book list" where
  "scrape_articles [] books = Inr books"
| "scrape_articles (art # arts) books =
     (case scrape_article art of
        Inl e \<Rightarrow> Inl e
      | Inr b \<Rightarrow> scrape_articles arts (books @ [b]))"

text \<open>
  The answer of \<open>requests.get\<close> for one page: the status code and the product nodes
  that \<open>BeautifulSoup(res.text, 'html.parser').select('article.product_pod')\<close> finds
  in the body. \<open>requests.get\<close> itself either returns a response or raises (a
  \<open>ConnectionError\<close>, a \<open>Timeout\<close>); the function \<open>fetch\<close> gives that outcome for
  each page number.
\<close>

record response =
  status_code :: int
  product_pods :: "article list"

fun scrape_pages :: "(int \<Rightarrow> error + response) \<Rightarrow> int list \<Rightarrow> book list \<Rightarrow> error + book list" where
  "scrape_pages fetch [] books = Inr books"
| "scrape_pages fetch (page # pages) books =
     (case fetch page of
        Inl e \<Rightarrow> Inl e
      | Inr res \<Rightarrow>
          if status_code res \<noteq> 200 then scrape_pages fetch pages books
          else
            case scrape_articles (product_pods res) books of
              Inl e \<Rightarrow> Inl e
            | Inr books' \<Rightarrow> scrape_pages fetch pages books')"

definition scrape_books_to_scrape :: "(int \<Rightarrow> error + response) \<Rightarrow> int \<Rightarrow> error + book list" where
  "scrape_books_to_scrape fetch pages = scrape_pages fetch [1..pages] []"

text \<open>
  What one page adds to the result when nothing raises: the records of its product nodes
  for a 200 answer, nothing for any other status.
\<close>

definition article_books :: "article \<Rightarrow> book list" where
  "article_books art = (case scrape_article art of Inl e \<Rightarrow> [] | Inr b \<Rightarrow> [b])"

definition page_books :: "error + response \<Rightarrow> book list" where
  "page_books outcome =
     (case outcome of
        Inl e \<Rightarrow> []
      | Inr res \<Rightarrow>
          if status_code res = 200 then concat (map article_books (product_pods res)) else [])"

text \<open>
  A page is fetched and read without an exception: \<open>requests.get\<close> returned a response
  and, when its status is 200, the loop body yields a record for each product node.
\<close>

definition page_ok :: "error + response \<Rightarrow> bool" where
  "page_ok outcome =
     (case outcome of
        Inl e \<Rightarrow> False
      | Inr res \<Rightarrow>
          status_code res = 200 \<longrightarrow>
          (\<forall>art\<in>set (product_pods res). \<exists>b. scrape_article art = Inr b))"

text \<open>Two sites for the examples: one that cannot be reached, and one with a catalogue
  page of one product followed by a page that is not found.\<close>

definition site_down :: "int \<Rightarrow> error + response" where
  "site_down page = Inl ConnectionError"

definition attic :: article where
  "attic =
     \<lparr>h3_a_title = Inr (ascii ''A Light in the Attic''),
      price_color_text = Inr (163 # ascii ''51.77''),
      star_rating_class = Inr [ascii ''star-rating'', ascii ''Three''],
      img_src = Inr (ascii ''../media/cache/2c/da/2cdad67c.jpg'')\<rparr>"

definition small_site :: "int \<Rightarrow> error + response" where
  "small_site page =
     (if page = 1 then Inr \<lparr>status_code = 200, product_pods = [attic]\<rparr>
      else Inr \<lparr>status_code = 404, product_pods = []\<rparr>)"

subsection \<open>The aggregator: analyze_sentiments\<close>

text \<open>
  \<^verbatim>\<open>ratings = pd.Series([b['rating'] for b in books if not pd.isna(b['rating'])])\<close>:
  the ratings that are not NaN, in the order of the records. They are integers.
\<close>

definition present_ratings :: "book list \<Rightarrow> int list" where
  "present_ratings books =
     concat (map (\<lambda>b. case rating b of Rating n \<Rightarrow> [n] | RatingNaN \<Rightarrow> []) books)"

text \<open>
  The pandas reductions on a series of integers. On the empty series \<open>mean\<close>, \<open>max\<close>
  and \<open>min\<close> give NaN. The mean is the float quotient of the sum and the length (the
  sum of ratings is an integer below \<open>2^53\<close>, which binary64 holds exactly).
  \<open>value_counts\<close> gives each distinct value with the number of its occurrences, and
  \<open>sort_index\<close> orders that table by value, ascending; \<open>to_dict\<close> keeps the order.
\<close>

definition series_mean :: "int list \<Rightarrow> pyfloat" where
  "series_mean xs =
     (if xs = [] then NaN else binary64 (of_int (sum_list xs) / of_nat (length xs)))"

definition series_max :: "int list \<Rightarrow> rating" where
  "series_max xs = (case xs of [] \<Rightarrow> RatingNaN | x # ys \<Rightarrow> Rating (fold max ys x))"

definition series_min :: "int list \<Rightarrow> rating" where
  "series_min xs = (case xs of [] \<Rightarrow> RatingNaN | x # ys \<Rightarrow> Rating (fold min ys x))"

definition value_counts :: "int list \<Rightarrow> (int \<times> nat) list" where
  "value_counts xs = map (\<lambda>v. (v, count_list xs v)) (remdups xs)"

definition sort_index :: "(int \<times> nat) list \<Rightarrow> (int \<times> nat) list" where
  "sort_index kvs = sort_key fst kvs"

record rating_stats =
  average_rating :: pyfloat
  highest_rating :: rating
  lowest_rating :: rating
  count :: nat
  rating_distribution :: "(int \<times> nat) list"

text \<open>
  Lines 50 to 58. \<open>round2\<close> stands for \<open>round(x, 2)\<close> on the value \<open>ratings.mean()\<close>
  returns: the rounding to two decimals of the installed NumPy (for a \<open>numpy.float64\<close>)
  or of Python (for a \<open>float\<close>).
\<close>

definition analyze_sentiments :: "(pyfloat \<Rightarrow> pyfloat) \<Rightarrow> book list \<Rightarrow> rating_stats" where
  "analyze_sentiments round2 books =
     (let ratings = present_ratings books
      in \<lparr>average_rating = round2 (series_mean ratings),
          highest_rating = series_max ratings,
          lowest_rating = series_min ratings,
          count = length ratings,
          rating_distribution = sort_index (value_counts ratings)\<rparr>)"

text \<open>
  NumPy's rounding to two decimals, \<open>rint(x * 100.0) / 100.0\<close>; NaN and the infinities
  are returned as they are.
\<close>

definition np_round2 :: "pyfloat \<Rightarrow> pyfloat" where
  "np_round2 x =
     (case x of
        Finite q \<Rightarrow>
          (case binary64 (q * 100) of
             Finite s \<Rightarrow> binary64 (of_int (round_half_even s) / 100)
           | y \<Rightarrow> y)
      | y \<Rightarrow> y)"

text \<open>
  Line 63 of the index route: \<^verbatim>\<open>stats = analyze_sentiments(books) if books else {}\<close>.
  The empty dictionary is \<open>None\<close>.
\<close>

definition index_stats :: "(pyfloat \<Rightarrow> pyfloat) \<Rightarrow> book list \<Rightarrow> rating_stats option" where
  "index_stats round2 books =
     (if books \<noteq> [] then Some (analyze_sentiments round2 books) else None)"

text \<open>A record with a given rating, for the examples.\<close>

definition rated :: "rating \<Rightarrow> book" where
  "rated r =
     \<lparr>title = ascii ''Emma'', price = Finite 10, rating = r,
      source = ascii ''BooksToScrape'', image_url = ascii ''http://books.toscrape.com/e.jpg''\<rparr>"

subsection \<open>The recommender\<close>

text \<open>
  Similarities are binary64 values, and \<open>sorted\<close> compares them. The order of the
  floats: minus infinity, the finite values by size, plus infinity. Python's comparisons
  with NaN all fail and leave the result of a sort unspecified; no NaN arises from sums of
  products of finite weights, and NaN is placed last here.
\<close>

definition float_rank :: "pyfloat \<Rightarrow> nat" where
  "float_rank x = (case x of NegInf \<Rightarrow> 0 | Finite a \<Rightarrow> 1 | PosInf \<Rightarrow> 2 | NaN \<Rightarrow> 3)"

definition float_value :: "pyfloat \<Rightarrow> rat" where
  "float_value x = (case x of Finite a \<Rightarrow> a | _ \<Rightarrow> 0)"

instantiation pyfloat :: linorder
begin

definition less_eq_pyfloat :: "pyfloat \<Rightarrow> pyfloat \<Rightarrow> bool" where
  "less_eq_pyfloat x y =
     (float_rank x < float_rank y \<or> (float_rank x = float_rank y \<and> float_value x \<le> float_value y))"

definition less_pyfloat :: "pyfloat \<Rightarrow> pyfloat \<Rightarrow> bool" where
  "less_pyfloat x y =
     (float_rank x < float_rank y \<or> (float_rank x = float_rank y \<and> float_value x < float_value y))"

instance
proof
fix x y z :: pyfloat
show "(x < y) = (x \<le> y \<and> \<not> y \<le> x)"
  by (auto simp: less_eq_pyfloat_def less_pyfloat_def)
show "x \<le> x"
  by (simp add: less_eq_pyfloat_def)
show "x \<le> y \<Longrightarrow> y \<le> z \<Longrightarrow> x \<le> z"
  by (auto simp: less_eq_pyfloat_def)
show "x \<le> y \<Longrightarrow> y \<le> x \<Longrightarrow> x = y"
  by (cases x; cases y) (auto simp: less_eq_pyfloat_def float_rank_def float_value_def)
show "x \<le> y \<or> y \<le> x"
  by (auto simp: less_eq_pyfloat_def)
qed

end

text \<open>
  Binary64 multiplication: the exact product rounded; an infinity times zero is NaN.
\<close>

fun float_mul :: "pyfloat \<Rightarrow> pyfloat \<Rightarrow> pyfloat" where
  "float_mul (Finite a) (Finite b) = binary64 (a * b)"
| "float_mul NaN y = NaN"
| "float_mul x NaN = NaN"
| "float_mul (Finite a) PosInf = (if 0 < a then PosInf else if a < 0 then NegInf else NaN)"
| "float_mul (Finite a) NegInf = (if 0 < a then NegInf else if a < 0 then PosInf else NaN)"
| "float_mul PosInf (Finite b) = (if 0 < b then PosInf else if b < 0 then NegInf else NaN)"
| "float_mul NegInf (Finite b) = (if 0 < b then NegInf else if b < 0 then PosInf else NaN)"
| "float_mul PosInf PosInf = PosInf"
| "float_mul NegInf NegInf = PosInf"
| "float_mul PosInf NegInf = NegInf"
| "float_mul NegInf PosInf = NegInf"

text \<open>
  Line 41, \<^verbatim>\<open>cosine_similarity(tfidf_matrix, tfidf_matrix)\<close>, is the product of the
  row-normalised matrix with its own transpose: entry \<open>(i, j)\<close> is the dot product of
  rows \<open>i\<close> and \<open>j\<close>, the products summed in column order. The rows \<open>X\<close> are the
  normalised ones (the vectorizer already scales every row to unit length, and a row
  without a term stays zero); the sparse product of the library skips the columns where
  a factor is zero, which adds nothing to a sum of non-negative terms.
\<close>

definition dot :: "pyfloat list \<Rightarrow> pyfloat list \<Rightarrow> pyfloat" where
  "dot xs ys = sum_loop (Finite 0) (map2 float_mul xs ys)"

definition linear_kernel :: "pyfloat list list \<Rightarrow> pyfloat list list" where
  "linear_kernel X = map (\<lambda>r. map (\<lambda>c. dot r c) X) X"

definition cosine_similarity :: "pyfloat list list \<Rightarrow> pyfloat list list" where
  "cosine_similarity X = linear_kernel X"

text \<open>
  Lines 39 and 40, \<^verbatim>\<open>TfidfVectorizer(stop_words='english').fit_transform(titles)\<close>.
  The analyzer of the vectorizer lowers the title, takes the maximal runs of two or more
  word characters (the default token pattern; on ASCII text the word characters are the
  letters, the digits and the underscore) and drops the stop words; \<open>stop_words\<close> stands for the English
  list of the library. When no title leaves a token the vocabulary is empty and
  \<open>fit_transform\<close> raises \<open>ValueError\<close>. Otherwise it returns one row of weights per
  title; \<open>weigh\<close> stands for the tf-idf weighting and row normalisation of the library.
\<close>

definition is_word_char :: "nat \<Rightarrow> bool" where
  "is_word_char c = (is_digit c \<or> (65 \<le> c \<and> c \<le> 90) \<or> (97 \<le> c \<and> c \<le> 122) \<or> c = 95)"

definition lower :: "nat \<Rightarrow> nat" where
  "lower c = (if 65 \<le> c \<and> c \<le> 90 then c + 32 else c)"

definition token :: "pystr \<Rightarrow> pystr list" where
  "token run = (if 2 \<le> length run then [run] else [])"

fun tokens :: "pystr \<Rightarrow> pystr \<Rightarrow> pystr list" where
  "tokens run [] = token run"
| "tokens run (c # s) =
     (if is_word_char c then tokens (run @ [c]) s else token run @ tokens [] s)"

definition analyzer :: "pystr list \<Rightarrow> pystr \<Rightarrow> pystr list" where
  "analyzer stop_words doc = filter (\<lambda>w. \<not> py_in w stop_words) (tokens [] (map lower doc))"

definition fit_transform ::
  "pystr list \<Rightarrow> (pystr list list \<Rightarrow> pyfloat list list) \<Rightarrow> pystr list \<Rightarrow> error + pyfloat list list" where
  "fit_transform stop_words weigh titles =
     (let docs = map (analyzer stop_words) titles
      in if concat docs = [] then Inl ValueError else Inr (weigh docs))"

text \<open>
  Line 45, \<^verbatim>\<open>sorted(sim_scores, key=lambda x: x[1], reverse=True)\<close>: Python's sort is
  stable, and with \<open>reverse=True\<close> it reverses the list, sorts it ascending and
  reverses the result, so that equal keys keep their original order. Lines 44 and 45
  give \<open>sim_scores\<close>: the pairs of index and similarity of one row, sorted, and the
  slice \<^verbatim>\<open>[1:top_n+1]\<close> of them. \<open>top_n\<close> is a natural number (the default is 5).
\<close>

definition sorted_reverse :: "(nat \<times> 'a::linorder) list \<Rightarrow> (nat \<times> 'a) list" where
  "sorted_reverse xs = rev (sort_key snd (rev xs))"

definition sim_scores :: "'a::linorder list \<Rightarrow> nat \<Rightarrow> (nat \<times> 'a) list" where
  "sim_scores row top_n = take top_n (drop 1 (sorted_reverse (List.enumerate 0 row)))"

text \<open>
  An entry of the result, the dictionary with the keys \<open>title\<close> and \<open>recs\<close> (the field
  \<open>rec_title\<close> is the key \<open>title\<close>, a name the record of a book already has).
\<close>

record recommendation =
  rec_title :: pystr
  recs :: "pystr list"

text \<open>
  Lines 43 to 47, one turn of the loop: indexing the matrix or the titles out of range
  raises \<open>IndexError\<close>.
\<close>

definition recommend_entry ::
  "pystr list \<Rightarrow> 'a::linorder list list \<Rightarrow> nat \<Rightarrow> nat \<Rightarrow> pystr \<Rightarrow> error + recommendation" where
  "recommend_entry titles cosine_sim top_n idx t =
     (if idx < length cosine_sim
      then let scores = sim_scores (cosine_sim ! idx) top_n
           in if list_all (\<lambda>i. fst i < length titles) scores
              then Inr \<lparr>rec_title = t, recs = map (\<lambda>i. titles ! fst i) scores\<rparr>
              else Inl IndexError
      else Inl IndexError)"

fun recommend_loop ::
  "pystr list \<Rightarrow> 'a::linorder list list \<Rightarrow> nat \<Rightarrow> (nat \<times> pystr) list \<Rightarrow> recommendation list
     \<Rightarrow> error + recommendation list" where
  "recommend_loop titles cosine_sim top_n [] recommendations = Inr recommendations"
| "recommend_loop titles cosine_sim top_n ((idx, t) # rest) recommendations =
     (case recommend_entry titles cosine_sim top_n idx t of
        Inl e \<Rightarrow> Inl e
      | Inr r \<Rightarrow> recommend_loop titles cosine_sim top_n rest (recommendations @ [r]))"

text \<open>Lines 37 to 48.\<close>

definition recommend_books ::
  "pystr list \<Rightarrow> (pystr list list \<Rightarrow> pyfloat list list) \<Rightarrow> book list \<Rightarrow> nat
     \<Rightarrow> error + recommendation list" where
  "recommend_books stop_words weigh books top_n =
     (let titles = map title books
      in case fit_transform stop_words weigh titles of
           Inl e \<Rightarrow> Inl e
         | Inr tfidf_matrix \<Rightarrow>
             recommend_loop titles (cosine_similarity tfidf_matrix) top_n
               (List.enumerate 0 titles) [])"

text \<open>
  Line 64 of the index route:
  \<^verbatim>\<open>recommendations = recommend_books(books) if books else []\<close>.
\<close>

definition index_recommendations ::
  "pystr list \<Rightarrow> (pystr list list \<Rightarrow> pyfloat list list) \<Rightarrow> book list \<Rightarrow> error + recommendation list" where
  "index_recommendations stop_words weigh books =
     (if books \<noteq> [] then recommend_books stop_words weigh books 5 else Inr [])"








section \<open>Properties\<close>

subsection \<open>Price extraction\<close>

lemma filter_dropWhile_disjoint:
  "(\<And>c. Q c \<Longrightarrow> \<not> P c) \<Longrightarrow> filter P (dropWhile Q s) = filter P s"
  by (induction s) auto

lemma re_sub_strip: "re_sub_non_numeric (strip s) = re_sub_non_numeric s"
proof -
  have d: "\<And>c. is_space c \<Longrightarrow> \<not> (is_digit c \<or> c = 46)"
    by (auto simp: is_space_def is_digit_def)
  have "filter (\<lambda>c. is_digit c \<or> c = 46) (rev (dropWhile is_space (rev (dropWhile is_space s))))
      = rev (filter (\<lambda>c. is_digit c \<or> c = 46) (dropWhile is_space (rev (dropWhile is_space s))))"
    by (simp add: rev_filter)
  also have "\<dots> = rev (filter (\<lambda>c. is_digit c \<or> c = 46) (rev (dropWhile is_space s)))"
    using d by (simp add: filter_dropWhile_disjoint)
  also have "\<dots> = filter (\<lambda>c. is_digit c \<or> c = 46) (dropWhile is_space s)"
    by (simp add: rev_filter)
  also have "\<dots> = filter (\<lambda>c. is_digit c \<or> c = 46) s"
    using d by (simp add: filter_dropWhile_disjoint)
  finally show ?thesis by (simp add: re_sub_non_numeric_def strip_def)
qed

lemma extract_price_cleaned:
  "extract_price t =
     (if re_sub_non_numeric t = [] then Inr NaN else py_float (re_sub_non_numeric t))"
  by (simp add: extract_price_def re_sub_strip Let_def)

lemma py_float_integer:
  "list_all is_digit ip \<Longrightarrow> ip \<noteq> [] \<Longrightarrow> py_float ip = Inr (binary64 (of_nat (digits_value ip)))"
proof -
  assume a: "list_all is_digit ip" "ip \<noteq> []"
  then have t: "takeWhile is_digit ip = ip" and d: "dropWhile is_digit ip = []"
    by (simp_all add: list_all_iff)
  show ?thesis unfolding py_float_def Let_def t d using a by simp
qed

lemma py_float_decimal:
  assumes "list_all is_digit ip" "list_all is_digit fp" "ip \<noteq> [] \<or> fp \<noteq> []"
  shows "py_float (ip @ 46 # fp) =
         Inr (binary64 (of_nat (digits_value ip) + of_nat (digits_value fp) / 10 ^ length fp))"
proof -
  have nd: "\<not> is_digit 46" by (simp add: is_digit_def)
  have t: "takeWhile is_digit (ip @ 46 # fp) = ip"
    using assms(1) nd by (simp add: list_all_iff takeWhile_append2)
  have d: "dropWhile is_digit (ip @ 46 # fp) = 46 # fp"
    using assms(1) nd by (simp add: list_all_iff dropWhile_append2)
  show ?thesis unfolding py_float_def Let_def t d using assms by auto
qed

text \<open>
  C8, as amended. For every price text, extraction deletes every character other than
  the digits and the period and parses the remainder with \<open>float\<close>; the text
  \<open>\<pounds>51.77\<close> yields 51.77; a text with no digit and no period (the empty text
  among them) yields the missing value; a remainder that is a decimal literal yields
  the binary64 value of that literal.
\<close>

theorem extract_price_amended:
  "extract_price t =
     (if re_sub_non_numeric t = [] then Inr NaN else py_float (re_sub_non_numeric t))
   \<and> extract_price (163 # ascii ''51.77'') = Inr (binary64 (5177 / 100))
   \<and> ((\<forall>c\<in>set t. \<not> is_digit c \<and> c \<noteq> 46) \<longrightarrow> extract_price t = Inr NaN)
   \<and> (list_all is_digit ip \<and> ip \<noteq> [] \<and> re_sub_non_numeric t = ip \<longrightarrow>
        extract_price t = Inr (binary64 (of_nat (digits_value ip))))
   \<and> (list_all is_digit ip \<and> list_all is_digit fp \<and> (ip \<noteq> [] \<or> fp \<noteq> [])
        \<and> re_sub_non_numeric t = ip @ 46 # fp \<longrightarrow>
        extract_price t =
          Inr (binary64 (of_nat (digits_value ip) + of_nat (digits_value fp) / 10 ^ length fp)))"
proof (intro conjI impI)
  show "extract_price t =
     (if re_sub_non_numeric t = [] then Inr NaN else py_float (re_sub_non_numeric t))"
    by (rule extract_price_cleaned)
  show "extract_price (163 # ascii ''51.77'') = Inr (binary64 (5177 / 100))"
    by (simp add: extract_price_cleaned re_sub_non_numeric_def is_digit_def ascii_def
        py_float_def digits_value_def)
  show "extract_price t = Inr NaN" if "\<forall>c\<in>set t. \<not> is_digit c \<and> c \<noteq> 46"
  proof -
    from that have "re_sub_non_numeric t = []"
      by (auto simp: re_sub_non_numeric_def filter_empty_conv)
    then show ?thesis by (simp add: extract_price_cleaned)
  qed
  show "extract_price t = Inr (binary64 (of_nat (digits_value ip)))"
    if "list_all is_digit ip \<and> ip \<noteq> [] \<and> re_sub_non_numeric t = ip"
    using that by (simp add: extract_price_cleaned py_float_integer)
  show "extract_price t =
          Inr (binary64 (of_nat (digits_value ip) + of_nat (digits_value fp) / 10 ^ length fp))"
    if "list_all is_digit ip \<and> list_all is_digit fp \<and> (ip \<noteq> [] \<or> fp \<noteq> [])
        \<and> re_sub_non_numeric t = ip @ 46 # fp"
    using that by (simp add: extract_price_cleaned py_float_decimal)
qed

theorem extract_price_amended_witness:
  "extract_price (ascii ''Price: 12.50 GBP'') = Inr (binary64 (12 + 50 / 10 ^ 2))
   \<and> extract_price (ascii ''sold out'') = Inr NaN"
proof
  have d: "list_all is_digit (ascii ''12'') \<and> list_all is_digit (ascii ''50'')
        \<and> (ascii ''12'' \<noteq> [] \<or> ascii ''50'' \<noteq> [])
        \<and> re_sub_non_numeric (ascii ''Price: 12.50 GBP'') = ascii ''12'' @ 46 # ascii ''50''"
    by (simp add: re_sub_non_numeric_def is_digit_def ascii_def)
  have v: "digits_value (ascii ''12'') = 12" "digits_value (ascii ''50'') = 50"
    "length (ascii ''50'') = 2"
    by (simp_all add: digits_value_def ascii_def)
  from extract_price_amended[of "ascii ''Price: 12.50 GBP''" "ascii ''12''" "ascii ''50''"] d
  have "extract_price (ascii ''Price: 12.50 GBP'') =
        Inr (binary64 (of_nat (digits_value (ascii ''12''))
              + of_nat (digits_value (ascii ''50'')) / 10 ^ length (ascii ''50'')))"
    by blast
  then show "extract_price (ascii ''Price: 12.50 GBP'') = Inr (binary64 (12 + 50 / 10 ^ 2))"
    by (simp only: v of_nat_numeral)
  have n: "\<forall>c\<in>set (ascii ''sold out''). \<not> is_digit c \<and> c \<noteq> 46"
    by (simp add: is_digit_def ascii_def)
  from extract_price_amended[of "ascii ''sold out''" "[]" "[]"] n
  show "extract_price (ascii ''sold out'') = Inr NaN"
    by blast
qed

text \<open>
  The claim as stated fails on a text that is not a number but keeps a period: the
  remainder \<open>.\<close> is not empty, so it reaches \<open>float\<close>, which raises.
\<close>

theorem extract_price_counterexample:
  "extract_price (ascii ''.'') = Inl ValueError"
  by (simp add: extract_price_def strip_def is_space_def re_sub_non_numeric_def is_digit_def
      ascii_def py_float_def digits_value_def)

subsection \<open>The fetcher\<close>

lemma scrape_articles_ok:
  "\<forall>art\<in>set arts. \<exists>b. scrape_article art = Inr b \<Longrightarrow>
   scrape_articles arts books = Inr (books @ concat (map article_books arts))"
proof (induction arts arbitrary: books)
  case Nil
  then show ?case by simp
next
  case (Cons art arts)
  then obtain b where b: "scrape_article art = Inr b" by auto
  from Cons.prems have "\<forall>a\<in>set arts. \<exists>b. scrape_article a = Inr b" by simp
  from Cons.IH[OF this] b show ?case by (simp add: article_books_def)
qed

lemma scrape_pages_ok:
  "\<forall>p\<in>set ps. page_ok (fetch p) \<Longrightarrow>
   scrape_pages fetch ps books = Inr (books @ concat (map (\<lambda>p. page_books (fetch p)) ps))"
proof (induction ps arbitrary: books)
  case Nil
  then show ?case by simp
next
  case (Cons p ps)
  from Cons.prems have ok: "page_ok (fetch p)" and rest: "\<forall>q\<in>set ps. page_ok (fetch q)"
    by simp_all
  from ok obtain res where res: "fetch p = Inr res"
    by (auto simp: page_ok_def split: sum.splits)
  show ?case
  proof (cases "status_code res = 200")
    case True
    with ok res have "\<forall>art\<in>set (product_pods res). \<exists>b. scrape_article art = Inr b"
      by (simp add: page_ok_def)
    from scrape_articles_ok[OF this] True res Cons.IH[OF rest] show ?thesis
      by (simp add: page_books_def)
  next
    case False
    with res Cons.IH[OF rest] show ?thesis by (simp add: page_books_def)
  qed
qed

text \<open>
  C1, as amended. For every page count \<open>P \<ge> 1\<close>, when \<open>requests.get\<close> returns a
  response for each of the pages 1 to \<open>P\<close> and the loop body yields a record for every
  product node of each page answered with status 200, the scrape returns a sequence of
  book records: the records of the 200 pages in page order, a page with any other status
  adding none.
\<close>

theorem scrape_returns_when_fetched:
  "1 \<le> P \<Longrightarrow> \<forall>p\<in>{1..P}. page_ok (fetch p) \<Longrightarrow>
   scrape_books_to_scrape fetch P = Inr (concat (map (\<lambda>p. page_books (fetch p)) [1..P]))"
  using scrape_pages_ok[of "[1..P]" fetch "[]"] by (simp add: scrape_books_to_scrape_def)

lemma scrape_attic:
  "scrape_article attic =
     Inr \<lparr>title = ascii ''A Light in the Attic'', price = binary64 (5177 / 100),
          rating = Rating 3, source = ascii ''BooksToScrape'',
          image_url = ascii ''http://books.toscrape.com/media/cache/2c/da/2cdad67c.jpg''\<rparr>"
  by (simp add: scrape_article_def attic_def extract_price_cleaned re_sub_non_numeric_def
      is_digit_def ascii_def py_float_def digits_value_def rating_of_class_def rating_map_def)

theorem scrape_returns_when_fetched_witness:
  "scrape_books_to_scrape small_site 2 =
     Inr [\<lparr>title = ascii ''A Light in the Attic'', price = binary64 (5177 / 100),
           rating = Rating 3, source = ascii ''BooksToScrape'',
           image_url = ascii ''http://books.toscrape.com/media/cache/2c/da/2cdad67c.jpg''\<rparr>]"
proof -
  have ok: "\<forall>p\<in>{1..2}. page_ok (small_site p)"
    by (simp add: page_ok_def small_site_def scrape_attic)
  have u: "[1..2] = [1, 2::int]"
    by (simp add: upto.simps)
  from scrape_returns_when_fetched[of 2 small_site, OF _ ok]
  have "scrape_books_to_scrape small_site 2 =
        Inr (concat (map (\<lambda>p. page_books (small_site p)) [1..2]))"
    by simp
  then show ?thesis
    by (simp add: u page_books_def small_site_def article_books_def scrape_attic)
qed

text \<open>
  The claim as stated fails: \<open>requests.get\<close> is called outside any \<open>try\<close>, so a
  network error on the first page ends the scrape with that exception.
\<close>

theorem scrape_counterexample:
  "scrape_books_to_scrape site_down 1 = Inl ConnectionError"
  by (simp add: scrape_books_to_scrape_def site_down_def upto.simps)

subsection \<open>The order total\<close>

lemma py_in_set: "py_in x ys = (x \<in> set ys)"
  by (induction ys) auto

lemma float_add_NaN_left: "float_add NaN b = NaN"
  by simp

lemma float_add_NaN_right: "float_add a NaN = NaN"
  by (cases a) simp_all

lemma sum_loop_NaN: "sum_loop NaN xs = NaN"
  by (induction xs) simp_all

lemma sum_loop_mem_NaN: "NaN \<in> set xs \<Longrightarrow> sum_loop acc xs = NaN"
proof (induction xs arbitrary: acc)
  case Nil
  then show ?case by simp
next
  case (Cons x xs)
  show ?case
  proof (cases "x = NaN")
    case True
    then show ?thesis by (simp add: float_add_NaN_right sum_loop_NaN)
  next
    case False
    with Cons.prems have "NaN \<in> set xs" by auto
    then show ?thesis by (simp add: Cons.IH)
  qed
qed

lemma selected_prices_filter:
  "[price book. book \<leftarrow> books, py_in (title book) selected_books] =
   map price (filter (\<lambda>r. title r \<in> set selected_books) books)"
  by (induction books) (simp_all add: py_in_set)


text \<open>
  C4, as amended. The total of POST /order does not guard a missing price: every fetched
  record whose title is selected contributes its price, and when one of them has the
  missing price (NaN) the total is NaN.
\<close>

theorem order_total_missing_price:
  "b \<in> set books \<Longrightarrow> title b \<in> set selected_books \<Longrightarrow> price b = NaN \<Longrightarrow>
   order_total books selected_books = NaN"
proof -
  assume "b \<in> set books" "title b \<in> set selected_books" "price b = NaN"
  then have "NaN \<in> set (map price (filter (\<lambda>r. title r \<in> set selected_books) books))"
    by force
  then show ?thesis
    by (simp only: order_total_def selected_prices_filter py_sum_def sum_loop_mem_NaN)
qed

theorem order_total_missing_price_witness:
  "order_total
     [\<lparr>title = ascii ''Emma'', price = Finite 10, rating = Rating 4,
        source = ascii ''BooksToScrape'', image_url = ascii ''http://books.toscrape.com/e.jpg''\<rparr>,
      \<lparr>title = ascii ''Sapiens'', price = NaN, rating = Rating 5,
        source = ascii ''BooksToScrape'', image_url = ascii ''http://books.toscrape.com/s.jpg''\<rparr>]
     [ascii ''Emma'', ascii ''Sapiens''] = NaN"
  by (rule order_total_missing_price[where b = "\<lparr>title = ascii ''Sapiens'', price = NaN,
        rating = Rating 5, source = ascii ''BooksToScrape'',
        image_url = ascii ''http://books.toscrape.com/s.jpg''\<rparr>"]) simp_all

text \<open>
  The claim as stated fails: a record with a missing price whose title is selected is
  summed like any other.
\<close>

theorem order_total_counterexample:
  "order_total
     [\<lparr>title = ascii ''Sapiens'', price = NaN, rating = Rating 5,
        source = ascii ''BooksToScrape'', image_url = ascii ''http://books.toscrape.com/s.jpg''\<rparr>]
     [ascii ''Sapiens''] = NaN"
  by (simp add: order_total_def py_sum_def)

subsection \<open>The aggregator\<close>












text \<open>
  C5, as amended. Whenever the fetched record set is empty, the index route does not
  call \<open>analyze_sentiments\<close> and takes the empty statistics; every non-empty record
  set is passed to \<open>analyze_sentiments\<close>, whether or not a rating is present.
\<close>

theorem index_stats_guard:
  "index_stats round2 [] = None
   \<and> (books \<noteq> [] \<longrightarrow> index_stats round2 books = Some (analyze_sentiments round2 books))"
  by (simp add: index_stats_def)

theorem index_stats_guard_witness:
  "index_stats np_round2 [rated (Rating 4)] = Some (analyze_sentiments np_round2 [rated (Rating 4)])"
  using index_stats_guard[of np_round2 "[rated (Rating 4)]"] by simp

text \<open>
  The claim as stated fails: with one fetched record whose rating is missing there is
  no present rating, and the route still calls \<open>analyze_sentiments\<close>, which reduces the
  empty series.
\<close>

theorem index_stats_counterexample:
  "index_stats np_round2 [rated RatingNaN] =
     Some \<lparr>average_rating = NaN, highest_rating = RatingNaN, lowest_rating = RatingNaN,
           count = 0, rating_distribution = []\<rparr>"
  by (simp add: index_stats_def analyze_sentiments_def present_ratings_def rated_def
      series_mean_def series_max_def series_min_def value_counts_def sort_index_def
      np_round2_def)

subsection \<open>The recommender\<close>

lemma float_mul_commute: "float_mul x y = float_mul y x"
  by (cases x; cases y) (simp_all add: mult.commute)

lemma map2_float_mul_commute: "map2 float_mul xs ys = map2 float_mul ys xs"
proof (induction xs arbitrary: ys)
  case Nil
  then show ?case by simp
next
  case (Cons x xs)
  then show ?case by (cases ys) (simp_all add: float_mul_commute)
qed

lemma dot_commute: "dot xs ys = dot ys xs"
  by (simp only: dot_def map2_float_mul_commute)

lemma linear_kernel_nth:
  "i < length X \<Longrightarrow> j < length X \<Longrightarrow> linear_kernel X ! i ! j = dot (X ! i) (X ! j)"
  by (simp add: linear_kernel_def)

lemma linear_kernel_symmetric:
  "i < length X \<Longrightarrow> j < length X \<Longrightarrow> linear_kernel X ! i ! j = linear_kernel X ! j ! i"
  by (simp add: linear_kernel_nth dot_commute)



























text \<open>
  C2, as amended. For the empty record sequence the index route does not call
  \<open>recommend_books\<close> and takes the empty sequence as the recommendations.
\<close>

theorem index_recommendations_empty:
  "index_recommendations stop_words weigh [] = Inr []"
  by (simp add: index_recommendations_def)

text \<open>
  The claim as stated fails: \<open>recommend_books\<close> has no guard of its own, and on the
  empty sequence the vectorizer finds no vocabulary and raises \<open>ValueError\<close>, whatever
  the stop words and the weighting.
\<close>

theorem recommend_books_empty_counterexample:
  "\<forall>stop_words weigh. recommend_books stop_words weigh [] 5 = Inl ValueError"
  by (simp add: recommend_books_def fit_transform_def)










end
